theory Spec2Isabelle
  imports Main "HOL-Library.Word"
begin

section \<open>Values shared by the two modules\<close>

text \<open>
  A \<open>Uint8Array\<close> is a list of 8-bit words. JavaScript strings are modelled as
  \<open>string\<close>; the operations used by the source (\<open>split('/')\<close>, \<open>endsWith\<close>,
  \<open>substring\<close> at offsets computed from \<open>length\<close>, concatenation) act on the sequence of
  code units, and the model performs them on the list of characters.
\<close>

type_synonym bytes = "8 word list"

text \<open>
  A thrown JavaScript value. The source reads three properties of what it catches:
  \<open>err.statusCode\<close>, \<open>err.$metadata?.httpStatusCode\<close> and \<open>err.code\<close>; a property
  that is absent (\<open>undefined\<close>) is \<open>None\<close>.
\<close>

record js_error =
  err_name :: string
  err_message :: string
  err_code :: "string option"
  err_statusCode :: "int option"
  err_httpStatusCode :: "int option"

text \<open>
  \<open>Raw e\<close> is an error value as it was thrown (by the object-store client, by the codec,
  by the identifier parser or by \<open>new Error(...)\<close> in this code). The other four
  constructors stand for the results of \<open>Errors.putFailedError(err)\<close>,
  \<open>Errors.notFoundError(err)\<close>, \<open>Errors.deleteFailedError(err)\<close> and
  \<open>Errors.openFailedError(err)\<close> of the imported module \<open>blockstore-core/errors\<close>: each
  wraps the cause it was given.
\<close>

datatype thrown =
    Raw js_error
  | putFailedError thrown
  | notFoundError thrown
  | deleteFailedError thrown
  | openFailedError thrown

text \<open>\<open>new Error(message)\<close>; \<open>new Error(undefined)\<close> has the empty message.\<close>

definition new_Error :: "string option \<Rightarrow> thrown" where
  "new_Error msg =
     Raw \<lparr>err_name = ''Error'',
          err_message = (case msg of None \<Rightarrow> [] | Some m \<Rightarrow> m),
          err_code = None, err_statusCode = None, err_httpStatusCode = None\<rparr>"

text \<open>
  Reading a property of \<open>undefined\<close> or \<open>null\<close> throws a \<open>TypeError\<close>, which carries
  none of the three properties. Its message is the engine's; the model writes the one
  V8 gives for an undefined value.
\<close>

definition TypeError :: "string \<Rightarrow> thrown" where
  "TypeError msg =
     Raw \<lparr>err_name = ''TypeError'', err_message = msg,
          err_code = None, err_statusCode = None, err_httpStatusCode = None\<rparr>"

text \<open>
  Property reads on a caught value. A wrapper of \<open>blockstore-core/errors\<close> carries that
  module's code for its kind and keeps the other properties of its cause.
\<close>

fun statusCode_of :: "thrown \<Rightarrow> int option" where
  "statusCode_of (Raw e) = err_statusCode e"
| "statusCode_of (putFailedError t) = statusCode_of t"
| "statusCode_of (notFoundError t) = statusCode_of t"
| "statusCode_of (deleteFailedError t) = statusCode_of t"
| "statusCode_of (openFailedError t) = statusCode_of t"

fun httpStatusCode_of :: "thrown \<Rightarrow> int option" where
  "httpStatusCode_of (Raw e) = err_httpStatusCode e"
| "httpStatusCode_of (putFailedError t) = httpStatusCode_of t"
| "httpStatusCode_of (notFoundError t) = httpStatusCode_of t"
| "httpStatusCode_of (deleteFailedError t) = httpStatusCode_of t"
| "httpStatusCode_of (openFailedError t) = httpStatusCode_of t"

fun code_of :: "thrown \<Rightarrow> string option" where
  "code_of (Raw e) = err_code e"
| "code_of (putFailedError t) = Some ''ERR_PUT_FAILED''"
| "code_of (notFoundError t) = Some ''ERR_NOT_FOUND''"
| "code_of (deleteFailedError t) = Some ''ERR_DELETE_FAILED''"
| "code_of (openFailedError t) = Some ''ERR_OPEN_FAILED''"

section \<open>JavaScript string operations used by the source\<close>

text \<open>
  \<open>s.substring(start, end)\<close>: both indices are clamped to \<open>[0, s.length]\<close>, and swapped
  when the first is the larger one.
\<close>

definition clamp_index :: "string \<Rightarrow> int \<Rightarrow> nat" where
  "clamp_index s i = nat (min (max i 0) (int (length s)))"

definition substring :: "string \<Rightarrow> int \<Rightarrow> int \<Rightarrow> string" where
  "substring s indexStart indexEnd =
     (let a = clamp_index s indexStart; b = clamp_index s indexEnd;
          lo = min a b; hi = max a b
      in take (hi - lo) (drop lo s))"

text \<open>\<open>s.substring(start)\<close>: the end index defaults to \<open>s.length\<close>.\<close>

definition substring_from :: "string \<Rightarrow> int \<Rightarrow> string" where
  "substring_from s indexStart = substring s indexStart (int (length s))"

text \<open>\<open>s.endsWith(suffix)\<close>.\<close>

definition endsWith :: "string \<Rightarrow> string \<Rightarrow> bool" where
  "endsWith s suffix =
     (length suffix \<le> length s \<and> drop (length s - length suffix) s = suffix)"

text \<open>\<open>s.startsWith(p)\<close>.\<close>

definition startsWith :: "string \<Rightarrow> string \<Rightarrow> bool" where
  "startsWith s p = (take (length p) s = p)"

text \<open>
  \<open>s.split(sep)\<close> for a one-character separator: the pieces between the occurrences of
  the separator, empty pieces included; the empty string gives one empty piece.
\<close>

fun js_split :: "string \<Rightarrow> char \<Rightarrow> string list" where
  "js_split [] sep = [[]]"
| "js_split (c # cs) sep =
     (if c = sep then [] # js_split cs sep
      else (case js_split cs sep of
              [] \<Rightarrow> [[c]]
            | w # ws \<Rightarrow> (c # w) # ws))"

text \<open>\<open>xs.pop()\<close>: the last element, \<open>undefined\<close> on the empty array.\<close>

definition js_pop :: "'a list \<Rightarrow> 'a option" where
  "js_pop xs = (if xs = [] then None else Some (last xs))"

section \<open>sharding.js\<close>

text \<open>
  A content identifier. The source reads \<open>cid.multihash.bytes\<close> only; version and
  codec are the other two components of an identifier.
\<close>

record CID =
  cid_version :: nat
  cid_code :: nat
  multihash_bytes :: bytes

text \<open>
  A multibase codec (\<open>this.base\<close>): \<open>base.encoder.encode\<close> and \<open>base.decoder.decode\<close>,
  the latter throwing on text it rejects. Codecs come from the package \<open>multiformats\<close>
  and are pluggable, so a codec is a value of the configuration.
\<close>

record MultibaseCodec =
  encoder_encode :: "bytes \<Rightarrow> string"
  decoder_decode :: "string \<Rightarrow> thrown + bytes"

text \<open>
  \<open>CID.decode\<close> of \<open>multiformats/cid\<close> is imported, not configured; the functions that
  call it take it as their first argument.
\<close>

type_synonym CID_decoder = "bytes \<Rightarrow> thrown + CID"

record NextToLast =
  ntl_extension :: string
  ntl_prefixLength :: int
  ntl_base :: MultibaseCodec

record FlatDirectory =
  flat_extension :: string
  flat_base :: MultibaseCodec

text \<open>
  The constructors: \<open>init.extension ?? '.data'\<close>, \<open>init.prefixLength ?? 2\<close>,
  \<open>init.base ?? base32upper\<close>. The imported default codec is an argument.
\<close>

definition NextToLast_new ::
  "MultibaseCodec \<Rightarrow> string option \<Rightarrow> int option \<Rightarrow> MultibaseCodec option \<Rightarrow> NextToLast" where
  "NextToLast_new base32upper init_extension init_prefixLength init_base =
     \<lparr>ntl_extension = (case init_extension of None \<Rightarrow> ''.data'' | Some e \<Rightarrow> e),
      ntl_prefixLength = (case init_prefixLength of None \<Rightarrow> 2 | Some p \<Rightarrow> p),
      ntl_base = (case init_base of None \<Rightarrow> base32upper | Some b \<Rightarrow> b)\<rparr>"

definition FlatDirectory_new ::
  "MultibaseCodec \<Rightarrow> string option \<Rightarrow> MultibaseCodec option \<Rightarrow> FlatDirectory" where
  "FlatDirectory_new base32upper init_extension init_base =
     \<lparr>flat_extension = (case init_extension of None \<Rightarrow> ''.data'' | Some e \<Rightarrow> e),
      flat_base = (case init_base of None \<Rightarrow> base32upper | Some b \<Rightarrow> b)\<rparr>"

text \<open>
  \<open>NextToLast.encode\<close>. The two local constants \<open>str\<close> and \<open>prefix\<close> of the source are
  \<open>NextToLast_str\<close> and \<open>NextToLast_prefix\<close>.
\<close>

definition NextToLast_str :: "NextToLast \<Rightarrow> CID \<Rightarrow> string" where
  "NextToLast_str s cid = encoder_encode (ntl_base s) (multihash_bytes cid)"

definition NextToLast_prefix :: "NextToLast \<Rightarrow> CID \<Rightarrow> string" where
  "NextToLast_prefix s cid =
     (let str = NextToLast_str s cid
      in substring_from str (int (length str) - ntl_prefixLength s))"

definition NextToLast_encode :: "NextToLast \<Rightarrow> CID \<Rightarrow> string" where
  "NextToLast_encode s cid =
     NextToLast_prefix s cid @ ''/'' @ NextToLast_str s cid @ ntl_extension s"

text \<open>
  The conditional of both \<open>decode\<close> methods that cuts the extension off a file name
  ending with it.
\<close>

definition strip_extension :: "string \<Rightarrow> string \<Rightarrow> string" where
  "strip_extension fileName extension =
     (if endsWith fileName extension
      then substring fileName 0 (int (length fileName) - int (length extension))
      else fileName)"

text \<open>
  The body shared by the two \<open>decode\<close> methods, which are the same text in the source
  up to the receiver: the file name is the last piece of the path; the extension is cut
  off; the rest goes through the codec's decoder and \<open>CID.decode\<close>. An exception of
  either ends the call.
\<close>

definition decode_path :: "CID_decoder \<Rightarrow> string \<Rightarrow> MultibaseCodec \<Rightarrow> string \<Rightarrow> thrown + CID" where
  "decode_path CID_decode extension base str =
     (case js_pop (js_split str CHR ''/'') of
        None \<Rightarrow> Inl (new_Error (Some ''Invalid path''))
      | Some fileName \<Rightarrow>
          (let fileName' = strip_extension fileName extension
           in case decoder_decode base fileName' of
                Inl err \<Rightarrow> Inl err
              | Inr buf \<Rightarrow> CID_decode buf))"

definition NextToLast_decode :: "CID_decoder \<Rightarrow> NextToLast \<Rightarrow> string \<Rightarrow> thrown + CID" where
  "NextToLast_decode CID_decode s str =
     decode_path CID_decode (ntl_extension s) (ntl_base s) str"

definition FlatDirectory_encode :: "FlatDirectory \<Rightarrow> CID \<Rightarrow> string" where
  "FlatDirectory_encode s cid =
     (let str = encoder_encode (flat_base s) (multihash_bytes cid)
      in str @ flat_extension s)"

definition FlatDirectory_decode :: "CID_decoder \<Rightarrow> FlatDirectory \<Rightarrow> string \<Rightarrow> thrown + CID" where
  "FlatDirectory_decode CID_decode s str =
     decode_path CID_decode (flat_extension s) (flat_base s) str"

text \<open>
  The interface \<open>ShardingStrategy\<close> with its two implementations; a call on a strategy
  dispatches on the variant.
\<close>

datatype ShardingStrategy =
    NextToLastStrategy NextToLast
  | FlatDirectoryStrategy FlatDirectory

fun strategy_encode :: "ShardingStrategy \<Rightarrow> CID \<Rightarrow> string" where
  "strategy_encode (NextToLastStrategy s) cid = NextToLast_encode s cid"
| "strategy_encode (FlatDirectoryStrategy s) cid = FlatDirectory_encode s cid"

fun strategy_decode :: "CID_decoder \<Rightarrow> ShardingStrategy \<Rightarrow> string \<Rightarrow> thrown + CID" where
  "strategy_decode CID_decode (NextToLastStrategy s) str = NextToLast_decode CID_decode s str"
| "strategy_decode CID_decode (FlatDirectoryStrategy s) str = FlatDirectory_decode CID_decode s str"

section \<open>index.js\<close>

text \<open>
  The commands the store sends, with the fields of their inputs: bucket and key, the
  body of a write, and for a listing the optional \<open>Prefix\<close> and \<open>StartAfter\<close>.
\<close>

datatype command =
    PutObjectCommand string string bytes
  | CreateBucketCommand string
  | GetObjectCommand string string
  | HeadObjectCommand string string
  | DeleteObjectCommand string string
  | ListObjectsV2Command string "string option" "string option"

text \<open>
  The shapes of \<open>data.Body\<close> that \<open>get\<close> tells apart: a \<open>Uint8Array\<close>, a string, a
  \<open>Blob\<close>, and anything else, which is drained as a stream of chunks and may fail
  while being read.
\<close>

datatype body =
    BodyUint8Array bytes
  | BodyString string
  | BodyBlob bytes
  | BodyStream "thrown + bytes list"

text \<open>
  What a request resolves to. The source reads \<open>Body\<close>, \<open>Contents\<close> (objects with an
  optional \<open>Key\<close>) and \<open>IsTruncated\<close>; an absent field is \<open>None\<close>, and a response that
  is \<open>null\<close> or \<open>undefined\<close> altogether is \<open>None :: response option\<close>.
\<close>

record response =
  Body :: "body option"
  Contents :: "string option list option"
  IsTruncated :: "bool option"

definition empty_response :: response where
  "empty_response = \<lparr>Body = None, Contents = None, IsTruncated = None\<rparr>"

text \<open>
  The object-store client: \<open>s3.send(command, {abortSignal})\<close>. The client owns the remote
  state \<open>'c\<close>; a request either rejects with a thrown value or resolves with a response.
  The second argument is \<open>options?.signal\<close>: \<open>None\<close> when no signal was given, otherwise
  the value of its \<open>aborted\<close> flag.
\<close>

type_synonym 'c S3 = "command \<Rightarrow> bool option \<Rightarrow> 'c \<Rightarrow> (thrown + response option) \<times> 'c"

record 'c S3Blockstore =
  createIfMissing :: bool
  s3 :: "'c S3"
  bucket :: string
  prefix :: "string option"
  shardingStrategy :: ShardingStrategy

text \<open>
  The constructor, after its two null checks: \<open>init?.createIfMissing ?? false\<close>, the
  prefix with a slash appended when it is a string and \<open>null\<close> otherwise,
  \<open>init?.shardingStrategy ?? new NextToLast()\<close>.
\<close>

definition S3Blockstore_new ::
  "MultibaseCodec \<Rightarrow> 'c S3 \<Rightarrow> string \<Rightarrow> bool option \<Rightarrow> string option \<Rightarrow> ShardingStrategy option
     \<Rightarrow> 'c S3Blockstore" where
  "S3Blockstore_new base32upper client bucketName init_createIfMissing init_prefix init_shardingStrategy =
     \<lparr>createIfMissing = (case init_createIfMissing of None \<Rightarrow> False | Some b \<Rightarrow> b),
      s3 = client,
      bucket = bucketName,
      prefix = (case init_prefix of None \<Rightarrow> None | Some p \<Rightarrow> Some (p @ ''/'')),
      shardingStrategy =
        (case init_shardingStrategy of
           None \<Rightarrow> NextToLastStrategy (NextToLast_new base32upper None None None)
         | Some s \<Rightarrow> s)\<rparr>"

text \<open>
  The key of every object request: the template literal
  \<open>`${this.prefix}${this.shardingStrategy.encode(key)}`\<close>, in which a \<open>null\<close> prefix
  prints as \<open>null\<close>.
\<close>

definition object_key :: "'c S3Blockstore \<Rightarrow> CID \<Rightarrow> string" where
  "object_key st key =
     (case prefix st of None \<Rightarrow> ''null'' | Some p \<Rightarrow> p) @ strategy_encode (shardingStrategy st) key"

definition S3Blockstore_put ::
  "'c S3Blockstore \<Rightarrow> CID \<Rightarrow> bytes \<Rightarrow> bool option \<Rightarrow> 'c \<Rightarrow> (thrown + CID) \<times> 'c" where
  "S3Blockstore_put st key val signal c =
     (case s3 st (PutObjectCommand (bucket st) (object_key st key) val) signal c of
        (Inr data, c') \<Rightarrow> (Inr key, c')
      | (Inl err, c') \<Rightarrow> (Inl (putFailedError err), c'))"

text \<open>
  \<open>unint8arrayFromString\<close>: the UTF-8 encoding of a string body. A character of the
  model is a code unit below 256: below 128 it is one byte, from 128 on it is the two
  bytes \<open>110000xx 10xxxxxx\<close>.
\<close>

definition utf8_of_char :: "char \<Rightarrow> bytes" where
  "utf8_of_char ch =
     (let n = (of_char ch :: nat)
      in if n < 128 then [of_nat n]
         else [of_nat (192 + n div 64), of_nat (128 + n mod 64)])"

definition fromString :: "string \<Rightarrow> bytes" where
  "fromString str = concat (map utf8_of_char str)"

text \<open>The four returns of \<open>get\<close> after the body check.\<close>

fun to_Uint8Array :: "body \<Rightarrow> thrown + bytes" where
  "to_Uint8Array (BodyUint8Array b) = Inr b"
| "to_Uint8Array (BodyString str) = Inr (fromString str)"
| "to_Uint8Array (BodyBlob buf) = Inr buf"
| "to_Uint8Array (BodyStream (Inl err)) = Inl err"
| "to_Uint8Array (BodyStream (Inr chunks)) = Inr (concat chunks)"

text \<open>The \<open>try\<close> block of \<open>get\<close>.\<close>

definition get_try ::
  "'c S3Blockstore \<Rightarrow> CID \<Rightarrow> bool option \<Rightarrow> 'c \<Rightarrow> (thrown + bytes) \<times> 'c" where
  "get_try st key signal c =
     (case s3 st (GetObjectCommand (bucket st) (object_key st key)) signal c of
        (Inl err, c') \<Rightarrow> (Inl err, c')
      | (Inr None, c') \<Rightarrow> (Inl (TypeError ''Cannot read properties of undefined (reading 'Body')''), c')
      | (Inr (Some data), c') \<Rightarrow>
          (case Body data of
             None \<Rightarrow> (Inl (new_Error (Some ''Response had no body'')), c')
           | Some b \<Rightarrow> (to_Uint8Array b, c')))"

text \<open>\<open>get\<close>: the \<open>try\<close> block and its \<open>catch\<close>.\<close>

definition S3Blockstore_get ::
  "'c S3Blockstore \<Rightarrow> CID \<Rightarrow> bool option \<Rightarrow> 'c \<Rightarrow> (thrown + bytes) \<times> 'c" where
  "S3Blockstore_get st key signal c =
     (case get_try st key signal c of
        (Inr block, c') \<Rightarrow> (Inr block, c')
      | (Inl err, c') \<Rightarrow>
          (if statusCode_of err = Some 404 then (Inl (notFoundError err), c')
           else (Inl err, c')))"

definition S3Blockstore_has ::
  "'c S3Blockstore \<Rightarrow> CID \<Rightarrow> bool option \<Rightarrow> 'c \<Rightarrow> (thrown + bool) \<times> 'c" where
  "S3Blockstore_has st key signal c =
     (case s3 st (HeadObjectCommand (bucket st) (object_key st key)) signal c of
        (Inr data, c') \<Rightarrow> (Inr True, c')
      | (Inl err, c') \<Rightarrow>
          (if httpStatusCode_of err = Some 404 then (Inr False, c')
           else if httpStatusCode_of err = Some 403 then (Inr False, c')
           else (Inl err, c')))"

definition S3Blockstore_delete ::
  "'c S3Blockstore \<Rightarrow> CID \<Rightarrow> bool option \<Rightarrow> 'c \<Rightarrow> (thrown + unit) \<times> 'c" where
  "S3Blockstore_delete st key signal c =
     (case s3 st (DeleteObjectCommand (bucket st) (object_key st key)) signal c of
        (Inr data, c') \<Rightarrow> (Inr (), c')
      | (Inl err, c') \<Rightarrow> (Inl (deleteFailedError err), c'))"

text \<open>
  \<open>getAll\<close> is a generator. Its model returns the entries it yields, in order, and how
  the sequence ends: \<open>None\<close> for a normal end, \<open>Some err\<close> for a thrown value. The
  consumer has received the entries before it sees the end.
\<close>

record Pair =
  pair_cid :: CID
  pair_block :: bytes

text \<open>The \<open>for\<close> loop over one page.\<close>

fun getAll_contents ::
  "CID_decoder \<Rightarrow> 'c S3Blockstore \<Rightarrow> bool option \<Rightarrow> string option list \<Rightarrow> 'c
     \<Rightarrow> (Pair list \<times> thrown option) \<times> 'c" where
  "getAll_contents CID_decode st signal [] c = (([], None), c)"
| "getAll_contents CID_decode st signal (d # ds) c =
     (case d of
        None \<Rightarrow> (([], Some (new_Error (Some ''Not found''))), c)
      | Some k \<Rightarrow>
          (case strategy_decode CID_decode (shardingStrategy st) k of
             Inl err \<Rightarrow> (([], Some err), c)
           | Inr cid \<Rightarrow>
               (case S3Blockstore_get st cid signal c of
                  (Inl err, c') \<Rightarrow> (([], Some err), c')
                | (Inr block, c') \<Rightarrow>
                    (case getAll_contents CID_decode st signal ds c' of
                       ((ps, ending), c'') \<Rightarrow>
                         ((\<lparr>pair_cid = cid, pair_block = block\<rparr> # ps, ending), c'')))))"

text \<open>
  The \<open>while (true)\<close> loop inside the \<open>try\<close> block, one iteration per listing request.
  The loop runs as long as the client reports truncated pages, so the model counts the
  requests it may still send; \<open>None\<close> is the answer of a run that needs more.
  \<open>params.StartAfter\<close> is the fifth argument.
\<close>

fun getAll_try ::
  "nat \<Rightarrow> CID_decoder \<Rightarrow> 'c S3Blockstore \<Rightarrow> bool option \<Rightarrow> string option \<Rightarrow> 'c
     \<Rightarrow> (Pair list \<times> thrown option) option \<times> 'c" where
  "getAll_try 0 CID_decode st signal StartAfter c = (None, c)"
| "getAll_try (Suc n) CID_decode st signal StartAfter c =
     (case s3 st (ListObjectsV2Command (bucket st) (prefix st) StartAfter) signal c of
        (Inl err, c1) \<Rightarrow> (Some ([], Some err), c1)
      | (Inr data, c1) \<Rightarrow>
          (if signal = Some True then (Some ([], None), c1)
           else
             (case data of
                None \<Rightarrow> (Some ([], Some (new_Error (Some ''Not found''))), c1)
              | Some r \<Rightarrow>
                  (case Contents r of
                     None \<Rightarrow> (Some ([], Some (new_Error (Some ''Not found''))), c1)
                   | Some ds \<Rightarrow>
                       (case getAll_contents CID_decode st signal ds c1 of
                          ((ps, Some err), c2) \<Rightarrow> (Some (ps, Some err), c2)
                        | ((ps, None), c2) \<Rightarrow>
                            (if IsTruncated r = Some True then
                               (case js_pop ds of
                                  None \<Rightarrow>
                                    (Some (ps, Some (TypeError
                                       ''Cannot read properties of undefined (reading 'Key')'')), c2)
                                | Some d \<Rightarrow>
                                    (case getAll_try n CID_decode st signal d c2 of
                                       (None, c3) \<Rightarrow> (None, c3)
                                     | (Some (ps', ending), c3) \<Rightarrow> (Some (ps @ ps', ending), c3)))
                             else (Some (ps, None), c2)))))))"

text \<open>\<open>getAll\<close>: the loop and the \<open>catch\<close> around it, \<open>throw new Error(err.code)\<close>.\<close>

definition S3Blockstore_getAll ::
  "nat \<Rightarrow> CID_decoder \<Rightarrow> 'c S3Blockstore \<Rightarrow> bool option \<Rightarrow> 'c
     \<Rightarrow> (Pair list \<times> thrown option) option \<times> 'c" where
  "S3Blockstore_getAll n CID_decode st signal c =
     (case getAll_try n CID_decode st signal None c of
        (None, c') \<Rightarrow> (None, c')
      | (Some (ps, None), c') \<Rightarrow> (Some (ps, None), c')
      | (Some (ps, Some err), c') \<Rightarrow> (Some (ps, Some (new_Error (code_of err))), c'))"

definition S3Blockstore_open ::
  "'c S3Blockstore \<Rightarrow> bool option \<Rightarrow> 'c \<Rightarrow> (thrown + unit) \<times> 'c" where
  "S3Blockstore_open st signal c =
     (case s3 st (HeadObjectCommand (bucket st) []) signal c of
        (Inr data, c1) \<Rightarrow> (Inr (), c1)
      | (Inl err, c1) \<Rightarrow>
          (if statusCode_of err \<noteq> Some 404 then
             (if createIfMissing st then
                (case s3 st (CreateBucketCommand (bucket st)) signal c1 of
                   (Inl err2, c2) \<Rightarrow> (Inl err2, c2)
                 | (Inr data2, c2) \<Rightarrow> (Inr (), c2))
              else (Inl (openFailedError err), c1))
           else (Inr (), c1)))"

section \<open>The mock client of the test suite (s3-mock.js)\<close>

text \<open>
  \<open>new S3Error(message, code)\<close>: \<open>code\<close> is the message, \<open>statusCode\<close> the optional
  second argument, \<open>$metadata.httpStatusCode\<close> that argument or 200.
\<close>

definition S3Error :: "string \<Rightarrow> int option \<Rightarrow> thrown" where
  "S3Error message code =
     Raw \<lparr>err_name = ''Error'', err_message = message, err_code = Some message,
          err_statusCode = code,
          err_httpStatusCode = Some (case code of None \<Rightarrow> 200 | Some n \<Rightarrow> n)\<rparr>"

text \<open>
  The mock keeps a \<open>Map\<close> from keys to bodies. A \<open>Map\<close> iterates in insertion order and
  \<open>set\<close> on a present key keeps its place, so the model is an association list with
  distinct keys.
\<close>

type_synonym storage = "(string \<times> bytes) list"

fun storage_set :: "storage \<Rightarrow> string \<Rightarrow> bytes \<Rightarrow> storage" where
  "storage_set [] k v = [(k, v)]"
| "storage_set ((k', v') # m) k v =
     (if k' = k then (k, v) # m else (k', v') # storage_set m k v)"

definition storage_has :: "storage \<Rightarrow> string \<Rightarrow> bool" where
  "storage_has m k = (map_of m k \<noteq> None)"

definition storage_get :: "storage \<Rightarrow> string \<Rightarrow> bytes option" where
  "storage_get m k = map_of m k"

definition storage_delete :: "storage \<Rightarrow> string \<Rightarrow> storage" where
  "storage_delete m k = filter (\<lambda>kv. fst kv \<noteq> k) m"

definition storage_keys :: "storage \<Rightarrow> string list" where
  "storage_keys m = map fst m"

text \<open>
  The handler that replaces \<open>s3.send\<close>. It looks at the command only, never at the
  abort signal, and rejects a command it does not know.
\<close>

fun s3Mock :: "storage S3" where
  "s3Mock (PutObjectCommand b k v) signal storage =
     (Inr (Some empty_response), storage_set storage k v)"
| "s3Mock (HeadObjectCommand b k) signal storage =
     (if storage_has storage k then (Inr (Some empty_response), storage)
      else (Inl (S3Error ''NotFound'' (Some 404)), storage))"
| "s3Mock (GetObjectCommand b k) signal storage =
     (if \<not> storage_has storage k then (Inl (S3Error ''NotFound'' (Some 404)), storage)
      else (Inr (Some (empty_response\<lparr>Body := map_option BodyUint8Array (storage_get storage k)\<rparr>)),
            storage))"
| "s3Mock (DeleteObjectCommand b k) signal storage =
     (Inr (Some empty_response), storage_delete storage k)"
| "s3Mock (ListObjectsV2Command b p startAfter) signal storage =
     (Inr (Some (empty_response\<lparr>Contents :=
        Some (map Some (filter (\<lambda>k. startsWith k (case p of None \<Rightarrow> [] | Some q \<Rightarrow> q))
                          (storage_keys storage)))\<rparr>)),
      storage)"
| "s3Mock (CreateBucketCommand b) signal storage =
     (Inl (S3Error ''UnknownCommand'' (Some 400)), storage)"

section \<open>Instances for the examples\<close>

text \<open>
  The strategies are configured with a codec and the store with a client; the examples
  below need one of each. \<open>example_base\<close> is a codec that writes one character per
  byte and rejects nothing.
\<close>

definition example_base :: MultibaseCodec where
  "example_base =
     \<lparr>encoder_encode = map (\<lambda>b. char_of (unat b)),
      decoder_decode = (\<lambda>str. Inr (map of_char str))\<rparr>"

text \<open>
  An identifier parser for the examples. Given the bytes of a SHA-256 multihash (hash
  code \<open>0x12\<close>, the digest length, the digest) it returns the version-0 identifier over
  that multihash, whose codec is dag-pb (\<open>0x70\<close>); it rejects everything else.
\<close>

definition example_CID_decode :: CID_decoder where
  "example_CID_decode buf =
     (case buf of
        h # n # digest \<Rightarrow>
          (if h = 0x12 \<and> unat n = length digest
           then Inr \<lparr>cid_version = 0, cid_code = 0x70, multihash_bytes = buf\<rparr>
           else Inl (new_Error (Some ''Invalid CID'')))
      | _ \<Rightarrow> Inl (new_Error (Some ''Invalid CID'')))"

text \<open>
  Two identifiers over the same multihash, one of version 0 and one of version 1 with
  the raw codec (\<open>0x55\<close>), and an identifier whose multihash bytes \<open>example_base\<close>
  writes as \<open>ABCDEFGH\<close>.
\<close>

definition example_cid_v0 :: CID where
  "example_cid_v0 =
     \<lparr>cid_version = 0, cid_code = 0x70, multihash_bytes = [0x12, 0x04, 0x61, 0x62, 0x63, 0x64]\<rparr>"

definition example_cid_v1 :: CID where
  "example_cid_v1 =
     \<lparr>cid_version = 1, cid_code = 0x55, multihash_bytes = [0x12, 0x04, 0x61, 0x62, 0x63, 0x64]\<rparr>"

definition example_cid_token :: CID where
  "example_cid_token =
     \<lparr>cid_version = 1, cid_code = 0x55,
      multihash_bytes = [0x41, 0x42, 0x43, 0x44, 0x45, 0x46, 0x47, 0x48]\<rparr>"

text \<open>Both strategies with their default extension and prefix length.\<close>

definition example_NextToLast :: NextToLast where
  "example_NextToLast = NextToLast_new example_base None None None"

definition example_FlatDirectory :: FlatDirectory where
  "example_FlatDirectory = FlatDirectory_new example_base None None"

text \<open>
  The cancellation raised by a client that honours the abort signal, and such a client
  built on another one: with an aborted signal it rejects every request before doing
  anything.
\<close>

definition AbortError :: thrown where
  "AbortError =
     Raw \<lparr>err_name = ''AbortError'', err_message = ''Request aborted'',
          err_code = None, err_statusCode = None, err_httpStatusCode = None\<rparr>"

definition abortable :: "'c S3 \<Rightarrow> 'c S3" where
  "abortable client command signal c =
     (if signal = Some True then (Inl AbortError, c) else client command signal c)"

text \<open>A client all of whose requests reject with the same value.\<close>

definition rejecting :: "thrown \<Rightarrow> 'c S3" where
  "rejecting err command signal c = (Inl err, c)"

text \<open>Stores over the clients above, with the defaults of the constructor.\<close>

definition example_store :: "storage S3Blockstore" where
  "example_store = S3Blockstore_new example_base s3Mock ''test'' None None None"

definition example_store_create :: "storage S3Blockstore" where
  "example_store_create = S3Blockstore_new example_base s3Mock ''test'' (Some True) None None"

definition example_store_abortable :: "storage S3Blockstore" where
  "example_store_abortable =
     S3Blockstore_new example_base (abortable s3Mock) ''test'' None None None"

definition example_store_rejecting :: "thrown \<Rightarrow> bool \<Rightarrow> storage S3Blockstore" where
  "example_store_rejecting err create =
     S3Blockstore_new example_base (rejecting err) ''test'' (Some create) None None"

text \<open>
  A client in front of a bucket that may be missing; its state says whether the bucket
  exists. The probe of \<open>open\<close> asks for the key \<open>''\<close>, which no bucket holds: on an
  existing bucket the request rejects with status 404, on a missing one with
  \<open>NoSuchBucket\<close> and no status code. Creating the bucket resolves with \<open>null\<close>.
\<close>

fun bucket_client :: "bool S3" where
  "bucket_client (HeadObjectCommand b k) signal present =
     (if present then (Inl (S3Error ''NotFound'' (Some 404)), present)
      else (Inl (S3Error ''NoSuchBucket'' None), present))"
| "bucket_client (CreateBucketCommand b) signal present = (Inr None, True)"
| "bucket_client command signal present = (Inl (S3Error ''UnknownCommand'' (Some 400)), present)"

definition example_store_bucket :: "bool \<Rightarrow> bool S3Blockstore" where
  "example_store_bucket create =
     S3Blockstore_new example_base bucket_client ''test'' (Some create) None None"













section \<open>Notions of the specification\<close>

text \<open>The extension and the codec of a strategy of either variant.\<close>

fun strategy_extension :: "ShardingStrategy \<Rightarrow> string" where
  "strategy_extension (NextToLastStrategy s) = ntl_extension s"
| "strategy_extension (FlatDirectoryStrategy s) = flat_extension s"

fun strategy_base :: "ShardingStrategy \<Rightarrow> MultibaseCodec" where
  "strategy_base (NextToLastStrategy s) = ntl_base s"
| "strategy_base (FlatDirectoryStrategy s) = flat_base s"

text \<open>The trailing \<open>p\<close> characters of a text, all of it when it is shorter.\<close>

definition trailing_chars :: "nat \<Rightarrow> string \<Rightarrow> string" where
  "trailing_chars p str = rev (take p (rev str))"

section \<open>Properties of the string operations and of sharding.js\<close>

lemma of_char_char_of_unat: "(of_char (char_of (unat (b::8 word))) :: 8 word) = b"
proof -
  have "(of_char (char_of (unat b)) :: 8 word) = of_nat (of_char (char_of (unat b)))"
    by (simp only: of_nat_of_char)
  also have "\<dots> = of_nat (unat b mod 256)"
    by (simp only: of_char_of)
  also have "\<dots> = b"
  proof -
    have "unat b < 256" using unsigned_less [of b, where 'a = nat] by simp
    then show ?thesis by simp
  qed
  finally show ?thesis .
qed

lemma example_base_roundtrip:
  "decoder_decode example_base (encoder_encode example_base buf) = Inr buf"
  by (simp add: example_base_def comp_def of_char_char_of_unat)

lemma js_split_not_Nil: "js_split s sep \<noteq> []"
  by (cases s) (auto split: list.splits)

lemma js_split_no_sep: "sep \<notin> set b \<Longrightarrow> js_split b sep = [b]"
  by (induction b) auto

lemma tl_js_split_append: "tl (js_split (a @ sep # b) sep) \<noteq> []"
  by (induction a) (auto simp: js_split_not_Nil split: list.splits)

lemma last_js_split_append: "last (js_split (a @ sep # b) sep) = last (js_split b sep)"
proof (induction a)
  case Nil
  show ?case by (simp add: js_split_not_Nil)
next
  case (Cons c a)
  obtain w ws where ws: "js_split (a @ sep # b) sep = w # ws"
    using js_split_not_Nil [of "a @ sep # b" sep] by (cases "js_split (a @ sep # b) sep") auto
  with tl_js_split_append [of a sep b] have "ws \<noteq> []" by simp
  with ws Cons show ?case by (simp add: js_split_not_Nil)
qed

lemma last_js_split_suffix: "sep \<notin> set b \<Longrightarrow> last (js_split (a @ sep # b) sep) = b"
  by (simp add: last_js_split_append js_split_no_sep)

lemma hd_js_split_prefix: "sep \<notin> set a \<Longrightarrow> hd (js_split (a @ sep # b) sep) = a"
  by (induction a) (auto simp: js_split_not_Nil split: list.splits)

lemma js_pop_js_split: "js_pop (js_split str sep) = Some (last (js_split str sep))"
  by (simp add: js_pop_def js_split_not_Nil)

lemma strip_extension_append: "strip_extension (t @ e) e = t"
  by (simp add: strip_extension_def endsWith_def substring_def clamp_index_def Let_def)

lemma substring_from_drop:
  "0 \<le> p \<Longrightarrow> substring_from s (int (length s) - p) = drop (length s - nat p) s"
  by (auto simp add: substring_from_def substring_def clamp_index_def Let_def max_def min_def
      nat_diff_distrib)

lemma trailing_chars_drop: "trailing_chars p s = drop (length s - p) s"
  by (simp add: trailing_chars_def rev_take)

lemma decode_path_eq:
  "decode_path D ext base str =
     (case decoder_decode base (strip_extension (last (js_split str CHR ''/'')) ext) of
        Inl err \<Rightarrow> Inl err
      | Inr buf \<Rightarrow> D buf)"
  by (simp add: decode_path_def js_pop_js_split)

lemma decode_path_token:
  assumes "CHR ''/'' \<notin> set tok" and "CHR ''/'' \<notin> set ext"
  shows "decode_path D ext base (a @ CHR ''/'' # tok @ ext) =
           (case decoder_decode base tok of Inl err \<Rightarrow> Inl err | Inr buf \<Rightarrow> D buf)"
    and "decode_path D ext base (tok @ ext) =
           (case decoder_decode base tok of Inl err \<Rightarrow> Inl err | Inr buf \<Rightarrow> D buf)"
proof -
  from assms have n: "CHR ''/'' \<notin> set (tok @ ext)" by simp
  have "last (js_split (a @ CHR ''/'' # (tok @ ext)) CHR ''/'') = tok @ ext"
    using n by (rule last_js_split_suffix)
  then show "decode_path D ext base (a @ CHR ''/'' # tok @ ext) =
           (case decoder_decode base tok of Inl err \<Rightarrow> Inl err | Inr buf \<Rightarrow> D buf)"
    by (simp add: decode_path_eq strip_extension_append)
  have "js_split (tok @ ext) CHR ''/'' = [tok @ ext]"
    using n by (rule js_split_no_sep)
  then show "decode_path D ext base (tok @ ext) =
           (case decoder_decode base tok of Inl err \<Rightarrow> Inl err | Inr buf \<Rightarrow> D buf)"
    by (simp add: decode_path_eq strip_extension_append)
qed

lemma strategy_decode_encode:
  assumes "CHR ''/'' \<notin> set (encoder_encode (strategy_base s) (multihash_bytes x))"
    and "CHR ''/'' \<notin> set (strategy_extension s)"
  shows "strategy_decode D s (strategy_encode s x) =
           (case decoder_decode (strategy_base s) (encoder_encode (strategy_base s) (multihash_bytes x)) of
              Inl err \<Rightarrow> Inl err
            | Inr buf \<Rightarrow> D buf)"
proof (cases s)
  case (NextToLastStrategy n)
  with assms show ?thesis
    by (simp add: NextToLast_decode_def NextToLast_encode_def NextToLast_str_def
        decode_path_token(1))
next
  case (FlatDirectoryStrategy f)
  with assms show ?thesis
    by (simp add: FlatDirectory_decode_def FlatDirectory_encode_def decode_path_token(2))
qed

lemma strategy_encode_multihash:
  "multihash_bytes x = multihash_bytes y \<Longrightarrow> strategy_encode s x = strategy_encode s y"
  by (cases s)
    (simp_all add: NextToLast_encode_def NextToLast_prefix_def NextToLast_str_def
      FlatDirectory_encode_def)

text \<open>
  Two different identifiers over the same multihash have the same path, so whatever the
  codec and the identifier parser are, \<open>decode\<close> cannot return both.
\<close>

lemma roundtrip_not_both:
  assumes "multihash_bytes x = multihash_bytes y" and "x \<noteq> y"
  shows "\<not> (strategy_decode D s (strategy_encode s x) = Inr x
           \<and> strategy_decode D s (strategy_encode s y) = Inr y)"
  using assms strategy_encode_multihash [of x y s] by auto

text \<open>
  Claim C1, as amended. For a strategy of either variant, \<open>decode (encode x) = x\<close> holds
  for every identifier \<open>x\<close> that the identifier parser returns for the multihash bytes of
  \<open>x\<close>, when the codec decodes what it encoded, and neither the encoded text nor the
  extension contains a slash. The claim as stated, for every identifier, fails:
  \<open>encode\<close> writes the multihash bytes only, and the version and codec of the identifier
  are not in the path.
\<close>

theorem roundtrip_for_parsed_identifiers:
  assumes "decoder_decode (strategy_base s) (encoder_encode (strategy_base s) (multihash_bytes x))
             = Inr (multihash_bytes x)"
    and "CID_decode (multihash_bytes x) = Inr x"
    and "CHR ''/'' \<notin> set (encoder_encode (strategy_base s) (multihash_bytes x))"
    and "CHR ''/'' \<notin> set (strategy_extension s)"
  shows "strategy_decode CID_decode s (strategy_encode s x) = Inr x"
  using assms by (simp add: strategy_decode_encode)

theorem roundtrip_for_parsed_identifiers_witness:
  "strategy_decode example_CID_decode (NextToLastStrategy example_NextToLast)
     (strategy_encode (NextToLastStrategy example_NextToLast) example_cid_v0) = Inr example_cid_v0
   \<and> strategy_decode example_CID_decode (FlatDirectoryStrategy example_FlatDirectory)
     (strategy_encode (FlatDirectoryStrategy example_FlatDirectory) example_cid_v0) = Inr example_cid_v0"
proof -
  have n1: "decoder_decode (strategy_base (NextToLastStrategy example_NextToLast))
              (encoder_encode (strategy_base (NextToLastStrategy example_NextToLast))
                 (multihash_bytes example_cid_v0)) = Inr (multihash_bytes example_cid_v0)"
    by code_simp
  have f1: "decoder_decode (strategy_base (FlatDirectoryStrategy example_FlatDirectory))
              (encoder_encode (strategy_base (FlatDirectoryStrategy example_FlatDirectory))
                 (multihash_bytes example_cid_v0)) = Inr (multihash_bytes example_cid_v0)"
    by code_simp
  have p: "example_CID_decode (multihash_bytes example_cid_v0) = Inr example_cid_v0"
    by code_simp
  have n3: "CHR ''/'' \<notin> set (encoder_encode (strategy_base (NextToLastStrategy example_NextToLast))
              (multihash_bytes example_cid_v0))"
    by code_simp
  have f3: "CHR ''/'' \<notin> set (encoder_encode (strategy_base (FlatDirectoryStrategy example_FlatDirectory))
              (multihash_bytes example_cid_v0))"
    by code_simp
  have n4: "CHR ''/'' \<notin> set (strategy_extension (NextToLastStrategy example_NextToLast))"
    by code_simp
  have f4: "CHR ''/'' \<notin> set (strategy_extension (FlatDirectoryStrategy example_FlatDirectory))"
    by code_simp
  show ?thesis
    using roundtrip_for_parsed_identifiers
        [where s = "NextToLastStrategy example_NextToLast" and x = example_cid_v0
           and CID_decode = example_CID_decode, OF n1 p n3 n4]
      roundtrip_for_parsed_identifiers
        [where s = "FlatDirectoryStrategy example_FlatDirectory" and x = example_cid_v0
           and CID_decode = example_CID_decode, OF f1 p f3 f4]
    by simp
qed

text \<open>
  Counterexample to claim C1 as stated: the version-1 identifier \<open>example_cid_v1\<close> does
  not come back from the path it is encoded to, under either variant.
\<close>

theorem roundtrip_counterexample:
  "strategy_decode example_CID_decode (NextToLastStrategy example_NextToLast)
     (strategy_encode (NextToLastStrategy example_NextToLast) example_cid_v1) \<noteq> Inr example_cid_v1
   \<and> strategy_decode example_CID_decode (FlatDirectoryStrategy example_FlatDirectory)
     (strategy_encode (FlatDirectoryStrategy example_FlatDirectory) example_cid_v1) \<noteq> Inr example_cid_v1"
  by code_simp


lemma NextToLast_prefix_trailing:
  "0 \<le> ntl_prefixLength s \<Longrightarrow>
     NextToLast_prefix s x = trailing_chars (nat (ntl_prefixLength s)) (NextToLast_str s x)"
  by (simp add: NextToLast_prefix_def Let_def substring_from_drop trailing_chars_drop)

text \<open>
  Claim C8. For the prefix-shard strategy with a prefix length \<open>p \<ge> 0\<close>: the shard prefix
  of \<open>encode x\<close> has length \<open>p\<close>, or the length of the encoded text when that is
  shorter; it is the trailing \<open>p\<close> characters of the encoded text and stands in the path
  before the slash (it is the first piece of the path when the encoded text has no
  slash); two identifiers whose trailing \<open>p\<close> encoded characters differ have different
  shard prefixes; and with prefix length 2 and extension \<open>.data\<close> an identifier encoded
  as \<open>ABCDEFGH\<close> has the path \<open>GH/ABCDEFGH.data\<close>.
\<close>

theorem shard_prefix_distribution:
  assumes "0 \<le> ntl_prefixLength s"
  shows "length (NextToLast_prefix s x) = min (nat (ntl_prefixLength s)) (length (NextToLast_str s x))
       \<and> NextToLast_prefix s x = trailing_chars (nat (ntl_prefixLength s)) (NextToLast_str s x)
       \<and> NextToLast_encode s x = NextToLast_prefix s x @ ''/'' @ NextToLast_str s x @ ntl_extension s
       \<and> (CHR ''/'' \<notin> set (NextToLast_str s x) \<longrightarrow>
            hd (js_split (NextToLast_encode s x) CHR ''/'') = NextToLast_prefix s x)
       \<and> (trailing_chars (nat (ntl_prefixLength s)) (NextToLast_str s x)
              \<noteq> trailing_chars (nat (ntl_prefixLength s)) (NextToLast_str s y) \<longrightarrow>
            NextToLast_prefix s x \<noteq> NextToLast_prefix s y)
       \<and> (ntl_prefixLength s = 2 \<and> ntl_extension s = ''.data'' \<and> NextToLast_str s x = ''ABCDEFGH'' \<longrightarrow>
            NextToLast_encode s x = ''GH/ABCDEFGH.data'')"
proof -
  note pre = NextToLast_prefix_trailing [OF assms]
  have len: "length (NextToLast_prefix s x) = min (nat (ntl_prefixLength s)) (length (NextToLast_str s x))"
    by (simp add: pre trailing_chars_drop)
  have seg: "hd (js_split (NextToLast_encode s x) CHR ''/'') = NextToLast_prefix s x"
    if "CHR ''/'' \<notin> set (NextToLast_str s x)"
  proof -
    have "set (NextToLast_prefix s x) \<subseteq> set (NextToLast_str s x)"
      by (simp add: pre trailing_chars_drop set_drop_subset)
    with that have "CHR ''/'' \<notin> set (NextToLast_prefix s x)" by blast
    then show ?thesis
      by (simp add: NextToLast_encode_def hd_js_split_prefix)
  qed
  have conc: "NextToLast_encode s x = ''GH/ABCDEFGH.data''"
    if "ntl_prefixLength s = 2" "ntl_extension s = ''.data''" "NextToLast_str s x = ''ABCDEFGH''"
    using that by (simp add: NextToLast_encode_def pre trailing_chars_drop)
  show ?thesis
    using len seg conc by (simp add: pre NextToLast_encode_def)
qed

theorem shard_prefix_distribution_witness:
  "0 \<le> ntl_prefixLength example_NextToLast
   \<and> length (NextToLast_prefix example_NextToLast example_cid_token) = 2
   \<and> hd (js_split (NextToLast_encode example_NextToLast example_cid_token) CHR ''/'')
        = NextToLast_prefix example_NextToLast example_cid_token
   \<and> NextToLast_prefix example_NextToLast example_cid_token
        \<noteq> NextToLast_prefix example_NextToLast example_cid_v0
   \<and> NextToLast_encode example_NextToLast example_cid_token = ''GH/ABCDEFGH.data''"
proof -
  have h0: "0 \<le> ntl_prefixLength example_NextToLast"
    by code_simp
  have h1: "CHR ''/'' \<notin> set (NextToLast_str example_NextToLast example_cid_token)"
    by code_simp
  have h2: "trailing_chars (nat (ntl_prefixLength example_NextToLast))
              (NextToLast_str example_NextToLast example_cid_token)
            \<noteq> trailing_chars (nat (ntl_prefixLength example_NextToLast))
              (NextToLast_str example_NextToLast example_cid_v0)"
    by code_simp
  have h3: "ntl_prefixLength example_NextToLast = 2 \<and> ntl_extension example_NextToLast = ''.data''
            \<and> NextToLast_str example_NextToLast example_cid_token = ''ABCDEFGH''"
    by code_simp
  have l: "min (nat (ntl_prefixLength example_NextToLast))
             (length (NextToLast_str example_NextToLast example_cid_token)) = 2"
    by code_simp
  note t = shard_prefix_distribution
    [where s = example_NextToLast and x = example_cid_token and y = example_cid_v0, OF h0]
  have c1: "length (NextToLast_prefix example_NextToLast example_cid_token) = 2"
    by (rule trans [OF t [THEN conjunct1] l])
  note c4 = t [THEN conjunct2, THEN conjunct2, THEN conjunct2, THEN conjunct1, THEN mp, OF h1]
  note c5 = t [THEN conjunct2, THEN conjunct2, THEN conjunct2, THEN conjunct2, THEN conjunct1,
    THEN mp, OF h2]
  note c6 = t [THEN conjunct2, THEN conjunct2, THEN conjunct2, THEN conjunct2, THEN conjunct2,
    THEN mp, OF h3]
  from h0 c1 c4 c5 c6 show ?thesis by blast
qed

text \<open>
  Claim C9. \<open>encode\<close> of both variants depends on the multihash bytes of the identifier
  only: two identifiers with the same multihash bytes have the same path, and a store
  addresses their blocks by the same object key.
\<close>

theorem encode_reads_multihash_only:
  assumes "multihash_bytes x = multihash_bytes y"
  shows "NextToLast_encode n x = NextToLast_encode n y
       \<and> FlatDirectory_encode f x = FlatDirectory_encode f y
       \<and> object_key st x = object_key st y"
  using assms strategy_encode_multihash [OF assms, of "shardingStrategy st"]
  by (simp add: NextToLast_encode_def NextToLast_prefix_def NextToLast_str_def
      FlatDirectory_encode_def object_key_def)

theorem encode_reads_multihash_only_witness:
  "multihash_bytes example_cid_v0 = multihash_bytes example_cid_v1
   \<and> example_cid_v0 \<noteq> example_cid_v1
   \<and> NextToLast_encode example_NextToLast example_cid_v0
        = NextToLast_encode example_NextToLast example_cid_v1
   \<and> FlatDirectory_encode example_FlatDirectory example_cid_v0
        = FlatDirectory_encode example_FlatDirectory example_cid_v1
   \<and> object_key example_store example_cid_v0 = object_key example_store example_cid_v1"
proof -
  have h: "multihash_bytes example_cid_v0 = multihash_bytes example_cid_v1"
    by (simp add: example_cid_v0_def example_cid_v1_def)
  have d: "example_cid_v0 \<noteq> example_cid_v1"
    by (simp add: example_cid_v0_def example_cid_v1_def)
  show ?thesis
    using encode_reads_multihash_only
        [where x = example_cid_v0 and y = example_cid_v1 and n = example_NextToLast
           and f = example_FlatDirectory and st = example_store, OF h] h d
    by simp
qed

text \<open>
  Claim C10. Splitting a string on the slash and taking the last piece always yields a
  string, so neither \<open>decode\<close> reaches its \<open>Invalid path\<close> branch: the result of
  \<open>decode\<close> is that of the codec's decoder followed by the identifier parser, and a
  failure of \<open>decode\<close> is the failure of one of the two.
\<close>

theorem invalid_path_unreachable:
  "js_pop (js_split str CHR ''/'') = Some (last (js_split str CHR ''/''))
   \<and> NextToLast_decode CID_decode n str =
       (case decoder_decode (ntl_base n)
               (strip_extension (last (js_split str CHR ''/'')) (ntl_extension n)) of
          Inl e \<Rightarrow> Inl e
        | Inr buf \<Rightarrow> CID_decode buf)
   \<and> FlatDirectory_decode CID_decode f str =
       (case decoder_decode (flat_base f)
               (strip_extension (last (js_split str CHR ''/'')) (flat_extension f)) of
          Inl e \<Rightarrow> Inl e
        | Inr buf \<Rightarrow> CID_decode buf)
   \<and> (NextToLast_decode CID_decode n str = Inl err \<longrightarrow>
        (case decoder_decode (ntl_base n)
                (strip_extension (last (js_split str CHR ''/'')) (ntl_extension n)) of
           Inl e \<Rightarrow> e = err
         | Inr buf \<Rightarrow> CID_decode buf = Inl err))
   \<and> (FlatDirectory_decode CID_decode f str = Inl err \<longrightarrow>
        (case decoder_decode (flat_base f)
                (strip_extension (last (js_split str CHR ''/'')) (flat_extension f)) of
           Inl e \<Rightarrow> e = err
         | Inr buf \<Rightarrow> CID_decode buf = Inl err))"
  by (auto simp add: js_pop_js_split NextToLast_decode_def FlatDirectory_decode_def decode_path_eq
      split: sum.splits)

theorem invalid_path_unreachable_witness:
  "NextToLast_decode example_CID_decode example_NextToLast ''x/y'' = Inl (new_Error (Some ''Invalid CID''))
   \<and> FlatDirectory_decode example_CID_decode example_FlatDirectory ''x/y'' = Inl (new_Error (Some ''Invalid CID''))
   \<and> js_pop (js_split ''x/y'' CHR ''/'') = Some ''y''
   \<and> (case decoder_decode (ntl_base example_NextToLast)
              (strip_extension (last (js_split ''x/y'' CHR ''/'')) (ntl_extension example_NextToLast)) of
         Inl e \<Rightarrow> e = new_Error (Some ''Invalid CID'')
       | Inr buf \<Rightarrow> example_CID_decode buf = Inl (new_Error (Some ''Invalid CID'')))
   \<and> (case decoder_decode (flat_base example_FlatDirectory)
              (strip_extension (last (js_split ''x/y'' CHR ''/'')) (flat_extension example_FlatDirectory)) of
         Inl e \<Rightarrow> e = new_Error (Some ''Invalid CID'')
       | Inr buf \<Rightarrow> example_CID_decode buf = Inl (new_Error (Some ''Invalid CID'')))"
proof -
  have n: "NextToLast_decode example_CID_decode example_NextToLast ''x/y''
             = Inl (new_Error (Some ''Invalid CID''))"
    by code_simp
  have f: "FlatDirectory_decode example_CID_decode example_FlatDirectory ''x/y''
             = Inl (new_Error (Some ''Invalid CID''))"
    by code_simp
  have l: "last (js_split ''x/y'' CHR ''/'') = ''y''"
    by code_simp
  show ?thesis
    using invalid_path_unreachable
        [where str = "''x/y''" and CID_decode = example_CID_decode and n = example_NextToLast
           and f = example_FlatDirectory and err = "new_Error (Some ''Invalid CID'')"] n f l
    by simp
qed

section \<open>Properties of index.js\<close>

text \<open>A wrapper is never the value it wraps.\<close>

lemma putFailedError_neq: "putFailedError t \<noteq> t"
  by (induction t) auto

lemma deleteFailedError_neq: "deleteFailedError t \<noteq> t"
  by (induction t) auto


text \<open>
  Claim C6. Whatever the identifier and the bytes: when the write request fails, with
  whatever value, \<open>put\<close> reports that value wrapped by \<open>putFailedError\<close> (WriteFailed) and
  never the bare value; when the write request succeeds, \<open>put\<close> returns the identifier
  it was given.
\<close>

theorem put_wraps_failure_returns_key:
  "(s3 st (PutObjectCommand (bucket st) (object_key st key) val) signal c = (Inl err, c') \<longrightarrow>
      S3Blockstore_put st key val signal c = (Inl (putFailedError err), c')
      \<and> S3Blockstore_put st key val signal c \<noteq> (Inl err, c'))
   \<and> (s3 st (PutObjectCommand (bucket st) (object_key st key) val) signal c = (Inr data, c') \<longrightarrow>
      S3Blockstore_put st key val signal c = (Inr key, c'))"
  by (simp add: S3Blockstore_put_def putFailedError_neq)

theorem put_wraps_failure_returns_key_witness:
  "S3Blockstore_put example_store_abortable example_cid_v1 [1, 2, 3] (Some True) []
     = (Inl (putFailedError AbortError), [])
   \<and> S3Blockstore_put example_store example_cid_v1 [1, 2, 3] None []
     = (Inr example_cid_v1, [(object_key example_store example_cid_v1, [1, 2, 3])])"
proof -
  have f: "s3 example_store_abortable
             (PutObjectCommand (bucket example_store_abortable)
                (object_key example_store_abortable example_cid_v1) [1, 2, 3]) (Some True) []
           = (Inl AbortError, [])"
    by code_simp
  have g: "s3 example_store
             (PutObjectCommand (bucket example_store) (object_key example_store example_cid_v1)
                [1, 2, 3]) None []
           = (Inr (Some empty_response), [(object_key example_store example_cid_v1, [1, 2, 3])])"
    by code_simp
  note t1 = put_wraps_failure_returns_key
    [where st = example_store_abortable and key = example_cid_v1 and val = "[1, 2, 3]"
       and signal = "Some True" and c = "[]" and err = AbortError and c' = "[]",
     THEN conjunct1, THEN mp, OF f, THEN conjunct1]
  note t2 = put_wraps_failure_returns_key
    [where st = example_store and key = example_cid_v1 and val = "[1, 2, 3]"
       and signal = None and c = "[]" and data = "Some empty_response"
       and c' = "[(object_key example_store example_cid_v1, [1, 2, 3])]",
     THEN conjunct2, THEN mp, OF g]
  from t1 t2 show ?thesis by blast
qed

text \<open>
  Claim C7. \<open>delete\<close> sends one delete request and never asks whether the key exists: it
  succeeds when the request succeeds and reports the request's failure wrapped by
  \<open>deleteFailedError\<close> (DeleteFailed). Over the test suite's mock client, whose delete
  request succeeds on any key, \<open>delete\<close> succeeds from every storage, whether or not the
  key is in it, leaves the key absent, and succeeds again when repeated.
\<close>

theorem delete_idempotent_wraps_failure:
  "(s3 st (DeleteObjectCommand (bucket st) (object_key st key)) signal c = (Inr data, c') \<longrightarrow>
      S3Blockstore_delete st key signal c = (Inr (), c'))
   \<and> (s3 st (DeleteObjectCommand (bucket st) (object_key st key)) signal c = (Inl err, c') \<longrightarrow>
      S3Blockstore_delete st key signal c = (Inl (deleteFailedError err), c'))
   \<and> (s3 st = s3Mock \<longrightarrow>
      S3Blockstore_delete st key signal storage
        = (Inr (), storage_delete storage (object_key st key))
      \<and> \<not> storage_has (storage_delete storage (object_key st key)) (object_key st key)
      \<and> S3Blockstore_delete st key signal (storage_delete storage (object_key st key))
        = (Inr (), storage_delete storage (object_key st key)))"
proof -
  have idem: "storage_delete (storage_delete m k) k = storage_delete m k" for m k
    by (simp add: storage_delete_def)
  have gone: "\<not> storage_has (storage_delete m k) k" for m k
    by (induction m) (auto simp add: storage_delete_def storage_has_def)
  show ?thesis
    by (simp add: S3Blockstore_delete_def idem gone)
qed

theorem delete_idempotent_wraps_failure_witness:
  "S3Blockstore_delete example_store example_cid_v1 None
       [(object_key example_store example_cid_v1, [1, 2, 3])] = (Inr (), [])
   \<and> S3Blockstore_delete example_store example_cid_v1 None [] = (Inr (), [])
   \<and> S3Blockstore_delete example_store_abortable example_cid_v1 (Some True) []
       = (Inl (deleteFailedError AbortError), [])"
proof -
  have m: "s3 example_store = s3Mock"
    by (simp add: example_store_def S3Blockstore_new_def)
  have d1: "storage_delete [(object_key example_store example_cid_v1, [1, 2, 3])]
              (object_key example_store example_cid_v1) = []"
    by (simp add: storage_delete_def)
  have f: "s3 example_store_abortable
             (DeleteObjectCommand (bucket example_store_abortable)
                (object_key example_store_abortable example_cid_v1)) (Some True) []
           = (Inl AbortError, [])"
    by (simp add: example_store_abortable_def S3Blockstore_new_def abortable_def)
  note t = delete_idempotent_wraps_failure
    [where st = example_store and key = example_cid_v1 and signal = None
       and storage = "[(object_key example_store example_cid_v1, [1, 2, 3])]",
     THEN conjunct2, THEN conjunct2, THEN mp, OF m]
  note t2 = delete_idempotent_wraps_failure
    [where st = example_store_abortable and key = example_cid_v1 and signal = "Some True"
       and c = "[]" and err = AbortError and c' = "[]",
     THEN conjunct2, THEN conjunct1, THEN mp, OF f]
  from t t2 d1 show ?thesis by simp
qed

text \<open>
  Claim C5. With the status of a failed probe read from \<open>$metadata.httpStatusCode\<close>:
  \<open>has\<close> returns true when the probe succeeds, false when the probe fails with status
  404 or 403, and re-raises any other failure of the probe.
\<close>

theorem has_false_on_404_and_403:
  "(s3 st (HeadObjectCommand (bucket st) (object_key st key)) signal c = (Inr data, c') \<longrightarrow>
      S3Blockstore_has st key signal c = (Inr True, c'))
   \<and> (s3 st (HeadObjectCommand (bucket st) (object_key st key)) signal c = (Inl err, c')
        \<and> (httpStatusCode_of err = Some 404 \<or> httpStatusCode_of err = Some 403) \<longrightarrow>
      S3Blockstore_has st key signal c = (Inr False, c'))
   \<and> (s3 st (HeadObjectCommand (bucket st) (object_key st key)) signal c = (Inl err, c')
        \<and> httpStatusCode_of err \<noteq> Some 404 \<and> httpStatusCode_of err \<noteq> Some 403 \<longrightarrow>
      S3Blockstore_has st key signal c = (Inl err, c'))"
  by (auto simp add: S3Blockstore_has_def)


theorem has_false_on_404_and_403_witness:
  "S3Blockstore_has example_store example_cid_v1 None
       [(object_key example_store example_cid_v1, [1, 2, 3])]
     = (Inr True, [(object_key example_store example_cid_v1, [1, 2, 3])])
   \<and> S3Blockstore_has example_store example_cid_v1 None [] = (Inr False, [])
   \<and> S3Blockstore_has (example_store_rejecting (S3Error ''Forbidden'' (Some 403)) False)
       example_cid_v1 None [] = (Inr False, [])
   \<and> S3Blockstore_has (example_store_rejecting (S3Error ''InternalError'' (Some 500)) False)
       example_cid_v1 None [] = (Inl (S3Error ''InternalError'' (Some 500)), [])"
proof -
  have h1: "s3 example_store
              (HeadObjectCommand (bucket example_store) (object_key example_store example_cid_v1))
              None [(object_key example_store example_cid_v1, [1, 2, 3])]
            = (Inr (Some empty_response), [(object_key example_store example_cid_v1, [1, 2, 3])])"
    by (simp add: example_store_def S3Blockstore_new_def storage_has_def)
  have h2: "s3 example_store
              (HeadObjectCommand (bucket example_store) (object_key example_store example_cid_v1))
              None []
            = (Inl (S3Error ''NotFound'' (Some 404)), [])
            \<and> (httpStatusCode_of (S3Error ''NotFound'' (Some 404)) = Some 404
               \<or> httpStatusCode_of (S3Error ''NotFound'' (Some 404)) = Some 403)"
    by (simp add: example_store_def S3Blockstore_new_def storage_has_def S3Error_def)
  have h3: "s3 (example_store_rejecting (S3Error ''Forbidden'' (Some 403)) False)
              (HeadObjectCommand (bucket (example_store_rejecting (S3Error ''Forbidden'' (Some 403)) False))
                 (object_key (example_store_rejecting (S3Error ''Forbidden'' (Some 403)) False)
                    example_cid_v1))
              None []
            = (Inl (S3Error ''Forbidden'' (Some 403)), [])
            \<and> (httpStatusCode_of (S3Error ''Forbidden'' (Some 403)) = Some 404
               \<or> httpStatusCode_of (S3Error ''Forbidden'' (Some 403)) = Some 403)"
    by (simp add: example_store_rejecting_def S3Blockstore_new_def rejecting_def S3Error_def)
  have h4: "s3 (example_store_rejecting (S3Error ''InternalError'' (Some 500)) False)
              (HeadObjectCommand
                 (bucket (example_store_rejecting (S3Error ''InternalError'' (Some 500)) False))
                 (object_key (example_store_rejecting (S3Error ''InternalError'' (Some 500)) False)
                    example_cid_v1))
              None []
            = (Inl (S3Error ''InternalError'' (Some 500)), [])
            \<and> httpStatusCode_of (S3Error ''InternalError'' (Some 500)) \<noteq> Some 404
            \<and> httpStatusCode_of (S3Error ''InternalError'' (Some 500)) \<noteq> Some 403"
    by (simp add: example_store_rejecting_def S3Blockstore_new_def rejecting_def S3Error_def)
  note t1 = has_false_on_404_and_403 [THEN conjunct1, THEN mp, OF h1]
  note t2 = has_false_on_404_and_403 [THEN conjunct2, THEN conjunct1, THEN mp, OF h2]
  note t3 = has_false_on_404_and_403 [THEN conjunct2, THEN conjunct1, THEN mp, OF h3]
  note t4 = has_false_on_404_and_403 [THEN conjunct2, THEN conjunct2, THEN mp, OF h4]
  from t1 t2 t3 t4 show ?thesis by blast
qed










text \<open>
  Claim C2, as amended. \<open>open\<close> succeeds silently, creating nothing, when the probe
  succeeds and when it fails with \<open>statusCode\<close> 404. When the probe fails with another
  status code or none: if \<open>createIfMissing\<close> is false \<open>open\<close> reports the failure
  wrapped by \<open>openFailedError\<close> (OpenFailed); if it is true \<open>open\<close> sends a create
  request, succeeds when that succeeds and re-raises its failure unwrapped otherwise.
  The claim as stated has a 404 probe lead to creation or OpenFailed, and every other
  probe failure to OpenFailed.
\<close>

theorem open_by_probe_status:
  "(s3 st (HeadObjectCommand (bucket st) []) signal c = (Inr data, c1) \<longrightarrow>
      S3Blockstore_open st signal c = (Inr (), c1))
   \<and> (s3 st (HeadObjectCommand (bucket st) []) signal c = (Inl err, c1)
       \<and> statusCode_of err = Some 404 \<longrightarrow>
      S3Blockstore_open st signal c = (Inr (), c1))
   \<and> (s3 st (HeadObjectCommand (bucket st) []) signal c = (Inl err, c1)
       \<and> statusCode_of err \<noteq> Some 404 \<and> \<not> createIfMissing st \<longrightarrow>
      S3Blockstore_open st signal c = (Inl (openFailedError err), c1))
   \<and> (s3 st (HeadObjectCommand (bucket st) []) signal c = (Inl err, c1)
       \<and> statusCode_of err \<noteq> Some 404 \<and> createIfMissing st
       \<and> s3 st (CreateBucketCommand (bucket st)) signal c1 = (Inr data2, c2) \<longrightarrow>
      S3Blockstore_open st signal c = (Inr (), c2))
   \<and> (s3 st (HeadObjectCommand (bucket st) []) signal c = (Inl err, c1)
       \<and> statusCode_of err \<noteq> Some 404 \<and> createIfMissing st
       \<and> s3 st (CreateBucketCommand (bucket st)) signal c1 = (Inl err2, c2) \<longrightarrow>
      S3Blockstore_open st signal c = (Inl err2, c2))"
  by (simp add: S3Blockstore_open_def)

theorem open_by_probe_status_witness:
  "S3Blockstore_open example_store None [([], [])] = (Inr (), [([], [])])
   \<and> S3Blockstore_open (example_store_bucket True) None True = (Inr (), True)
   \<and> S3Blockstore_open (example_store_bucket False) None False
       = (Inl (openFailedError (S3Error ''NoSuchBucket'' None)), False)
   \<and> S3Blockstore_open (example_store_bucket True) None False = (Inr (), True)
   \<and> S3Blockstore_open (example_store_rejecting (S3Error ''NoSuchBucket'' None) True) None []
       = (Inl (S3Error ''NoSuchBucket'' None), [])"
proof -
  let ?e = "S3Error ''NoSuchBucket'' None"
  let ?r = "example_store_rejecting ?e True"
  have p1: "s3 example_store (HeadObjectCommand (bucket example_store) []) None [([], [])]
             = (Inr (Some empty_response), [([], [])])"
    by (simp add: example_store_def S3Blockstore_new_def storage_has_def)
  have p2: "s3 (example_store_bucket True) (HeadObjectCommand (bucket (example_store_bucket True)) [])
              None True = (Inl (S3Error ''NotFound'' (Some 404)), True)
            \<and> statusCode_of (S3Error ''NotFound'' (Some 404)) = Some 404"
    by (simp add: example_store_bucket_def S3Blockstore_new_def S3Error_def)
  have p3: "s3 (example_store_bucket False) (HeadObjectCommand (bucket (example_store_bucket False)) [])
              None False = (Inl ?e, False)
            \<and> statusCode_of ?e \<noteq> Some 404 \<and> \<not> createIfMissing (example_store_bucket False)"
    by (simp add: example_store_bucket_def S3Blockstore_new_def S3Error_def)
  have p4: "s3 (example_store_bucket True) (HeadObjectCommand (bucket (example_store_bucket True)) [])
              None False = (Inl ?e, False)
            \<and> statusCode_of ?e \<noteq> Some 404 \<and> createIfMissing (example_store_bucket True)
            \<and> s3 (example_store_bucket True) (CreateBucketCommand (bucket (example_store_bucket True)))
                None False = (Inr None, True)"
    by (simp add: example_store_bucket_def S3Blockstore_new_def S3Error_def)
  have p5: "s3 ?r (HeadObjectCommand (bucket ?r) []) None [] = (Inl ?e, [])
            \<and> statusCode_of ?e \<noteq> Some 404 \<and> createIfMissing ?r
            \<and> s3 ?r (CreateBucketCommand (bucket ?r)) None [] = (Inl ?e, [])"
    by (simp add: example_store_rejecting_def S3Blockstore_new_def rejecting_def S3Error_def)
  note t1 = open_by_probe_status [THEN conjunct1, THEN mp, OF p1]
  note t2 = open_by_probe_status [THEN conjunct2, THEN conjunct1, THEN mp, OF p2]
  note t3 = open_by_probe_status [THEN conjunct2, THEN conjunct2, THEN conjunct1, THEN mp, OF p3]
  note t4 = open_by_probe_status
    [THEN conjunct2, THEN conjunct2, THEN conjunct2, THEN conjunct1, THEN mp, OF p4]
  note t5 = open_by_probe_status
    [THEN conjunct2, THEN conjunct2, THEN conjunct2, THEN conjunct2, THEN mp, OF p5]
  from t1 t2 t3 t4 t5 show ?thesis by blast
qed

text \<open>
  Counterexample to claim C2 as stated. When the probe fails with status 404 and
  \<open>createIfMissing\<close> is false, \<open>open\<close> succeeds instead of reporting OpenFailed; when
  \<open>createIfMissing\<close> is true it succeeds without a create request (the mock client
  would have rejected one). When the probe fails with \<open>NoSuchBucket\<close> and no status code
  and \<open>createIfMissing\<close> is true, \<open>open\<close> creates the bucket instead of reporting
  OpenFailed.
\<close>

theorem open_counterexample:
  "createIfMissing example_store = False
   \<and> s3 example_store (HeadObjectCommand (bucket example_store) []) None []
       = (Inl (S3Error ''NotFound'' (Some 404)), [])
   \<and> S3Blockstore_open example_store None [] = (Inr (), [])
   \<and> createIfMissing example_store_create = True
   \<and> s3 example_store_create (HeadObjectCommand (bucket example_store_create) []) None []
       = (Inl (S3Error ''NotFound'' (Some 404)), [])
   \<and> s3 example_store_create (CreateBucketCommand (bucket example_store_create)) None []
       = (Inl (S3Error ''UnknownCommand'' (Some 400)), [])
   \<and> S3Blockstore_open example_store_create None [] = (Inr (), [])
   \<and> createIfMissing (example_store_bucket True) = True
   \<and> s3 (example_store_bucket True) (HeadObjectCommand (bucket (example_store_bucket True)) [])
         None False
       = (Inl (S3Error ''NoSuchBucket'' None), False)
   \<and> S3Blockstore_open (example_store_bucket True) None False = (Inr (), True)"
  by (simp add: example_store_def example_store_create_def example_store_bucket_def
      S3Blockstore_new_def S3Blockstore_open_def storage_has_def S3Error_def)

text \<open>
  Claim C3, as amended. With a signal that is already cancelled every operation still
  sends its request, with the signal attached. When the request fails with a Cancelled
  condition, \<open>put\<close> reports it wrapped by \<open>putFailedError\<close>, \<open>delete\<close> wrapped by
  \<open>deleteFailedError\<close>, and \<open>has\<close> re-raises it as it is (its status is neither 404 nor
  403). When the listing request returns, \<open>getAll\<close> yields no entry and ends without
  error.
\<close>

theorem cancelled_signal_outcomes:
  "(s3 st (PutObjectCommand (bucket st) (object_key st key) val) (Some True) c = (Inl err, c') \<longrightarrow>
      S3Blockstore_put st key val (Some True) c = (Inl (putFailedError err), c'))
   \<and> (s3 st (DeleteObjectCommand (bucket st) (object_key st key)) (Some True) c = (Inl err, c') \<longrightarrow>
      S3Blockstore_delete st key (Some True) c = (Inl (deleteFailedError err), c'))
   \<and> (s3 st (HeadObjectCommand (bucket st) (object_key st key)) (Some True) c = (Inl err, c')
       \<and> httpStatusCode_of err \<noteq> Some 404 \<and> httpStatusCode_of err \<noteq> Some 403 \<longrightarrow>
      S3Blockstore_has st key (Some True) c = (Inl err, c'))
   \<and> (s3 st (ListObjectsV2Command (bucket st) (prefix st) None) (Some True) c = (Inr data, c') \<longrightarrow>
      S3Blockstore_getAll (Suc n) CID_decode st (Some True) c = (Some ([], None), c'))"
  by (simp add: S3Blockstore_put_def S3Blockstore_delete_def S3Blockstore_has_def
      S3Blockstore_getAll_def)

theorem cancelled_signal_outcomes_witness:
  "S3Blockstore_put example_store_abortable example_cid_v1 [1, 2, 3] (Some True) []
     = (Inl (putFailedError AbortError), [])
   \<and> S3Blockstore_delete example_store_abortable example_cid_v1 (Some True) []
     = (Inl (deleteFailedError AbortError), [])
   \<and> S3Blockstore_has example_store_abortable example_cid_v1 (Some True) []
     = (Inl AbortError, [])
   \<and> S3Blockstore_getAll (Suc 0) example_CID_decode example_store (Some True)
       [(object_key example_store example_cid_v0, [1, 2, 3])]
     = (Some ([], None), [(object_key example_store example_cid_v0, [1, 2, 3])])"
proof -
  let ?a = example_store_abortable
  have a: "s3 ?a = abortable s3Mock"
    by (simp add: example_store_abortable_def S3Blockstore_new_def)
  have p: "s3 ?a (PutObjectCommand (bucket ?a) (object_key ?a example_cid_v1) [1, 2, 3]) (Some True) []
           = (Inl AbortError, [])"
    by (simp add: a abortable_def)
  have d: "s3 ?a (DeleteObjectCommand (bucket ?a) (object_key ?a example_cid_v1)) (Some True) []
           = (Inl AbortError, [])"
    by (simp add: a abortable_def)
  have h: "s3 ?a (HeadObjectCommand (bucket ?a) (object_key ?a example_cid_v1)) (Some True) []
           = (Inl AbortError, [])
           \<and> httpStatusCode_of AbortError \<noteq> Some 404 \<and> httpStatusCode_of AbortError \<noteq> Some 403"
    by (simp add: a abortable_def AbortError_def)
  have l: "s3 example_store
             (ListObjectsV2Command (bucket example_store) (prefix example_store) None) (Some True)
             [(object_key example_store example_cid_v0, [1, 2, 3])]
           = (Inr (Some (empty_response\<lparr>Contents :=
                 Some [Some (object_key example_store example_cid_v0)]\<rparr>)),
              [(object_key example_store example_cid_v0, [1, 2, 3])])"
    by (simp add: example_store_def S3Blockstore_new_def storage_keys_def startsWith_def)
  note t1 = cancelled_signal_outcomes [THEN conjunct1, THEN mp, OF p]
  note t2 = cancelled_signal_outcomes [THEN conjunct2, THEN conjunct1, THEN mp, OF d]
  note t3 = cancelled_signal_outcomes [THEN conjunct2, THEN conjunct2, THEN conjunct1, THEN mp, OF h]
  note t4 = cancelled_signal_outcomes
    [where n = 0 and CID_decode = example_CID_decode,
     THEN conjunct2, THEN conjunct2, THEN conjunct2, THEN mp, OF l]
  from t1 t2 t3 t4 show ?thesis by blast
qed

text \<open>
  Counterexample to claim C3 as stated, with an already cancelled signal. Over a client
  that honours the signal, \<open>put\<close> and \<open>delete\<close> report WriteFailed and DeleteFailed
  values rather than the Cancelled condition, and \<open>getAll\<close> ends with an error. Over the
  mock client, which ignores the signal, \<open>put\<close> succeeds.
\<close>

theorem cancelled_signal_counterexample:
  "S3Blockstore_put example_store_abortable example_cid_v1 [1, 2, 3] (Some True) []
     = (Inl (putFailedError AbortError), [])
   \<and> putFailedError AbortError \<noteq> AbortError
   \<and> S3Blockstore_delete example_store_abortable example_cid_v1 (Some True) []
     = (Inl (deleteFailedError AbortError), [])
   \<and> deleteFailedError AbortError \<noteq> AbortError
   \<and> S3Blockstore_getAll (Suc 0) example_CID_decode example_store_abortable (Some True) []
     = (Some ([], Some (new_Error None)), [])
   \<and> S3Blockstore_put example_store example_cid_v1 [1, 2, 3] (Some True) []
     = (Inr example_cid_v1, [(object_key example_store example_cid_v1, [1, 2, 3])])"
  by (simp add: example_store_abortable_def example_store_def S3Blockstore_new_def abortable_def
      S3Blockstore_put_def S3Blockstore_delete_def S3Blockstore_getAll_def AbortError_def)

end
